theory Spec2Isabelle
  imports Complex_Main "HOL-Library.Word" "HOL-Library.Multiset" "HOL-Library.Sublist"
begin

section \<open>Values and exceptions\<close>

text \<open>
  The application (\<^verbatim>\<open>app.py\<close>) is a Flask program over an SQLite database with two
  tables, \<^verbatim>\<open>items(id, name)\<close> and \<^verbatim>\<open>comparisons(item1_id, item2_id, score)\<close>.
  Every \<^verbatim>\<open>raise\<close> of the Python program is a value of \<open>exn\<close>; a computation that
  may raise returns \<open>exn + 'a\<close>, with \<open>Inl\<close> for the exception. The exception classes are
  the ones the handlers of \<^verbatim>\<open>app.py\<close> tell apart; \<open>OtherException\<close> stands for every
  other subclass of \<^verbatim>\<open>Exception\<close>. The string of \<open>OperationalError\<close> is \<^verbatim>\<open>str(e)\<close>.
\<close>

datatype exn =
    KeyError string
  | ValueError
  | TypeError
  | OverflowError
  | OperationalError string
  | IntegrityError string
  | OtherException string

text \<open>
  A cell of an SQLite row, as the \<^verbatim>\<open>sqlite3\<close> module hands it to Python: \<^verbatim>\<open>None\<close>, an
  \<^verbatim>\<open>int\<close> (SQLite integers are signed 64-bit), a \<^verbatim>\<open>float\<close>, a \<^verbatim>\<open>str\<close> or \<^verbatim>\<open>bytes\<close>.
  A stored REAL is never NaN (SQLite stores NaN as NULL); a finite one is given by its
  exact value, which is all that \<^verbatim>\<open>int()\<close> and SQL's \<^verbatim>\<open>=\<close> look at. A \<open>string\<close> is a
  sequence of code points below 256.
\<close>

datatype sqlreal = Finite rat | PosInf | NegInf

datatype sqlval =
    SqlNull
  | SqlInt "64 word"
  | SqlReal sqlreal
  | SqlText string
  | SqlBlob string

section \<open>Python's \<^verbatim>\<open>int()\<close> and \<^verbatim>\<open>str.strip()\<close>\<close>

definition is_digit :: "char \<Rightarrow> bool" where
  "is_digit c = (let n = (of_char c :: nat) in 48 \<le> n \<and> n \<le> 57)"

definition digit_val :: "char \<Rightarrow> int" where
  "digit_val c = int (of_char c) - 48"

text \<open>
  Whitespace, on one code point below 256. \<^verbatim>\<open>str.strip()\<close> removes the characters
  of \<^verbatim>\<open>str.isspace\<close>. \<^verbatim>\<open>int(bytes)\<close> skips the six ASCII blanks only, and
  \<^verbatim>\<open>int(str)\<close> skips these and the non-ASCII spaces, but not the separators 28 to 31.
\<close>

definition is_space :: "char \<Rightarrow> bool" where
  "is_space c = (let n = (of_char c :: nat) in
     (9 \<le> n \<and> n \<le> 13) \<or> (28 \<le> n \<and> n \<le> 32) \<or> n = 133 \<or> n = 160)"

definition is_byte_space :: "char \<Rightarrow> bool" where
  "is_byte_space c = (let n = (of_char c :: nat) in (9 \<le> n \<and> n \<le> 13) \<or> n = 32)"

definition is_int_space :: "char \<Rightarrow> bool" where
  "is_int_space c = (let n = (of_char c :: nat) in
     (9 \<le> n \<and> n \<le> 13) \<or> n = 32 \<or> n = 133 \<or> n = 160)"

definition strip_with :: "(char \<Rightarrow> bool) \<Rightarrow> string \<Rightarrow> string" where
  "strip_with sp s = rev (dropWhile sp (rev (dropWhile sp s)))"

text \<open>\<^verbatim>\<open>item_name.strip()\<close>.\<close>

definition py_strip :: "string \<Rightarrow> string" where
  "py_strip s = strip_with is_space s"

text \<open>
  The digits of a base-10 literal after its first digit: digits, each optionally preceded
  by one underscore. \<open>acc\<close> is the value read so far.
\<close>

fun py_digits :: "int \<Rightarrow> string \<Rightarrow> int option" where
  "py_digits acc [] = Some acc"
| "py_digits acc [c] = (if is_digit c then Some (10 * acc + digit_val c) else None)"
| "py_digits acc (c # d # cs) =
     (if is_digit c then py_digits (10 * acc + digit_val c) (d # cs)
      else if c = CHR ''_'' \<and> is_digit d then py_digits (10 * acc + digit_val d) cs
      else None)"

definition py_unsigned :: "string \<Rightarrow> int option" where
  "py_unsigned s =
     (case s of [] \<Rightarrow> None
      | c # cs \<Rightarrow> if is_digit c then py_digits (digit_val c) cs else None)"

text \<open>
  The default of \<^verbatim>\<open>sys.int_max_str_digits\<close>: \<^verbatim>\<open>int()\<close> rejects a literal with more
  digits (leading zeros count; the sign and the underscores do not).
\<close>

definition int_max_str_digits :: nat where
  "int_max_str_digits = 4300"

definition py_int_literal :: "string \<Rightarrow> int option" where
  "py_int_literal s =
     (if int_max_str_digits < length (filter is_digit s) then None
      else
        (case s of [] \<Rightarrow> None
         | c # cs \<Rightarrow>
             if c = CHR ''-'' then map_option uminus (py_unsigned cs)
             else if c = CHR ''+'' then py_unsigned cs
             else py_unsigned s))"

text \<open>
  \<^verbatim>\<open>int(s)\<close> on a \<^verbatim>\<open>str\<close> and on \<^verbatim>\<open>bytes\<close>: surrounding whitespace, an optional
  sign, decimal digits. \<open>None\<close> is the \<^verbatim>\<open>ValueError\<close>.
\<close>

definition py_int_str :: "string \<Rightarrow> int option" where
  "py_int_str s = py_int_literal (strip_with is_int_space s)"

definition py_int_bytes :: "string \<Rightarrow> int option" where
  "py_int_bytes s = py_int_literal (strip_with is_byte_space s)"

definition py_trunc :: "rat \<Rightarrow> int" where
  "py_trunc q = (if 0 \<le> q then \<lfloor>q\<rfloor> else \<lceil>q\<rceil>)"

text \<open>\<^verbatim>\<open>int(v)\<close> on a value read from a row.\<close>

fun py_int :: "sqlval \<Rightarrow> exn + int" where
  "py_int SqlNull = Inl TypeError"
| "py_int (SqlInt w) = Inr (sint w)"
| "py_int (SqlReal (Finite q)) = Inr (py_trunc q)"
| "py_int (SqlReal PosInf) = Inl OverflowError"
| "py_int (SqlReal NegInf) = Inl OverflowError"
| "py_int (SqlText s) = (case py_int_str s of None \<Rightarrow> Inl ValueError | Some n \<Rightarrow> Inr n)"
| "py_int (SqlBlob s) = (case py_int_bytes s of None \<Rightarrow> Inl ValueError | Some n \<Rightarrow> Inr n)"

section \<open>The store\<close>

text \<open>
  Modelled from the spec: \<^verbatim>\<open>schema.sql\<close> is not among the sources. The spec gives
  \<^verbatim>\<open>items(id, name)\<close> with \<open>id\<close> a unique integer assigned by the store and \<open>name\<close> a
  string, and \<^verbatim>\<open>comparisons(item1_id, item2_id, score)\<close> with integer columns and no
  referential integrity. So an item's id is an SQLite integer and its name a text; the
  columns of a comparison have integer affinity, which lets a cell hold a value of any
  storage class.
\<close>

record item =
  ident :: "64 word"
  name :: string

record comparison_row =
  item1_id :: sqlval
  item2_id :: sqlval
  score :: sqlval

text \<open>
  A table is its rows in the store's iteration order, or \<open>Inl e\<close> when every statement on
  it raises \<open>e\<close>: a table that was never created raises
  \<^verbatim>\<open>OperationalError("no such table: ...")\<close>, a locked or damaged file raises other
  errors.
\<close>

record db =
  items :: "exn + item list"
  comparisons :: "exn + comparison_row list"

text \<open>Binding a Python \<^verbatim>\<open>int\<close> as a statement parameter: it must fit 64 bits.\<close>

definition bind_int :: "int \<Rightarrow> exn + 64 word" where
  "bind_int n =
     (if - (2 ^ 63) \<le> n \<and> n < 2 ^ 63 then Inr (word_of_int n) else Inl OverflowError)"

text \<open>
  SQL's \<^verbatim>\<open>column = ?\<close> for an integer parameter and a column of integer affinity: true
  for an integer or a real of the same value; text and blobs are never equal to a
  number, and a comparison with NULL is not true.
\<close>

fun sql_eq :: "sqlval \<Rightarrow> 64 word \<Rightarrow> bool" where
  "sql_eq (SqlInt w) p = (w = p)"
| "sql_eq (SqlReal (Finite q)) p = (q = of_int (sint p))"
| "sql_eq v p = False"

text \<open>
  \<^verbatim>\<open>conn.execute('SELECT score, item1_id, item2_id FROM comparisons WHERE item1_id = ?
  OR item2_id = ?', (n, n)).fetchall()\<close>. The statement is prepared (which fails on the
  table's error) before its parameters are bound.
\<close>

definition execute_select_comparisons :: "db \<Rightarrow> int \<Rightarrow> exn + comparison_row list" where
  "execute_select_comparisons d n =
     (case comparisons d of
        Inl e \<Rightarrow> Inl e
      | Inr rows \<Rightarrow>
          (case bind_int n of
             Inl e \<Rightarrow> Inl e
           | Inr p \<Rightarrow> Inr (filter (\<lambda>r. sql_eq (item1_id r) p \<or> sql_eq (item2_id r) p) rows)))"

section \<open>\<^verbatim>\<open>calculate_relative_rank\<close>\<close>

text \<open>The \<^verbatim>\<open>for comparison in comparisons\<close> loop; the third argument is \<^verbatim>\<open>total_score\<close>.\<close>

fun rank_loop :: "int \<Rightarrow> comparison_row list \<Rightarrow> int \<Rightarrow> exn + int" where
  "rank_loop item_id_int [] total_score = Inr total_score"
| "rank_loop item_id_int (comparison # rest) total_score =
     (case py_int (item1_id comparison) of
        Inl e \<Rightarrow> Inl e
      | Inr comp_item1_id \<Rightarrow>
          (case py_int (item2_id comparison) of
             Inl e \<Rightarrow> Inl e
           | Inr comp_item2_id \<Rightarrow>
               if comp_item1_id = item_id_int then
                 (case py_int (score comparison) of
                    Inl e \<Rightarrow> Inl e
                  | Inr s \<Rightarrow> rank_loop item_id_int rest (total_score + s))
               else if comp_item2_id = item_id_int then
                 (case py_int (score comparison) of
                    Inl e \<Rightarrow> Inl e
                  | Inr s \<Rightarrow> rank_loop item_id_int rest (total_score - s))
               else rank_loop item_id_int rest total_score))"

text \<open>The body of the \<^verbatim>\<open>try\<close>.\<close>

definition calculate_relative_rank_try :: "db \<Rightarrow> sqlval \<Rightarrow> exn + int" where
  "calculate_relative_rank_try d item_id =
     (case py_int item_id of
        Inl e \<Rightarrow> Inl e
      | Inr item_id_int \<Rightarrow>
          (case execute_select_comparisons d item_id_int of
             Inl e \<Rightarrow> Inl e
           | Inr cs \<Rightarrow> rank_loop item_id_int cs 0))"

text \<open>
  The three handlers, in the source's order: \<^verbatim>\<open>sqlite3.OperationalError\<close>,
  \<^verbatim>\<open>(ValueError, TypeError)\<close>, \<^verbatim>\<open>Exception\<close>. Each returns 0.
\<close>

definition calculate_relative_rank :: "db \<Rightarrow> sqlval \<Rightarrow> int" where
  "calculate_relative_rank d item_id =
     (case calculate_relative_rank_try d item_id of
        Inr total_score \<Rightarrow> total_score
      | Inl (OperationalError m) \<Rightarrow> 0
      | Inl ValueError \<Rightarrow> 0
      | Inl TypeError \<Rightarrow> 0
      | Inl e \<Rightarrow> 0)"

section \<open>Requests and responses\<close>

text \<open>
  \<^verbatim>\<open>request.form\<close> maps field names to strings. A handler returns a rendered template
  (with the data passed to it), a body with a status code, or a redirect. \<^verbatim>\<open>url_for('index')\<close>
  is \<^verbatim>\<open>/\<close>.
\<close>

type_synonym form = "string \<rightharpoonup> string"

record ranked_item =
  r_id :: "64 word"
  r_name :: string
  rank :: int

datatype response =
    RenderCompare item item
  | RenderIndex "ranked_item list"
  | Body string nat
  | Redirect string

datatype http_method = GET | POST

text \<open>\<^verbatim>\<open>request.form[k]\<close>: a missing field raises (a subclass of) \<^verbatim>\<open>KeyError\<close>.\<close>

definition lookup :: "form \<Rightarrow> string \<Rightarrow> exn + string" where
  "lookup fm k = (case fm k of None \<Rightarrow> Inl (KeyError k) | Some v \<Rightarrow> Inr v)"

text \<open>\<^verbatim>\<open>sub in s\<close> on strings.\<close>

fun contains :: "string \<Rightarrow> string \<Rightarrow> bool" where
  "contains sub [] = (sub = [])"
| "contains sub (c # cs) = (prefix sub (c # cs) \<or> contains sub cs)"

section \<open>\<^verbatim>\<open>compare_items\<close> (GET /compare)\<close>

text \<open>
  \<^verbatim>\<open>ORDER BY RANDOM()\<close>: the store draws one number per row and sorts the rows by it.
  The draws are an input of the model: \<open>rnd i\<close> is the number drawn for the \<open>i\<close>-th row.
\<close>

definition order_by_random :: "(nat \<Rightarrow> int) \<Rightarrow> 'a list \<Rightarrow> 'a list" where
  "order_by_random rnd rows = map snd (sort_key fst (zip (map rnd [0..<length rows]) rows))"

text \<open>
  The body of the \<^verbatim>\<open>try\<close>. \<^verbatim>\<open>SELECT count(id) FROM items\<close> counts the rows, an id being
  never NULL.
\<close>

definition compare_items_try :: "(nat \<Rightarrow> int) \<Rightarrow> db \<Rightarrow> exn + response" where
  "compare_items_try rnd d =
     (case items d of
        Inl e \<Rightarrow> Inl e
      | Inr rows \<Rightarrow>
          (case take 2 (order_by_random rnd rows) of
             [item1, item2] \<Rightarrow> Inr (RenderCompare item1 item2)
           | _ \<Rightarrow>
               if length rows < 2
               then Inr (Body ''Not enough items in the database to compare (need at least 2).'' 200)
               else Inr (Body ''Could not fetch two distinct items.'' 200)))"

text \<open>
  The only handler is for \<^verbatim>\<open>sqlite3.OperationalError\<close>; any other exception leaves the
  function (\<open>Inl\<close>).
\<close>

definition compare_items :: "(nat \<Rightarrow> int) \<Rightarrow> db \<Rightarrow> exn + response" where
  "compare_items rnd d =
     (case compare_items_try rnd d of
        Inr r \<Rightarrow> Inr r
      | Inl (OperationalError m) \<Rightarrow>
          if contains ''no such table: items'' m
          then Inr (Body ''Database not initialized. Run 'flask init-db' first.'' 500)
          else Inr (Body (''Database error: '' @ m) 500)
      | Inl e \<Rightarrow> Inl e)"

section \<open>\<^verbatim>\<open>record_comparison\<close> (POST /record_comparison)\<close>

text \<open>
  The \<^verbatim>\<open>INSERT\<close> and the \<^verbatim>\<open>commit\<close>. The two ids are bound as the form's strings, the
  preference as an integer. What a column stores for a bound value depends on the type
  \<^verbatim>\<open>schema.sql\<close> declares for it; that file is not among the sources, so the conversion
  is the parameter \<open>affinity\<close>.
\<close>

definition execute_insert_comparison ::
    "(sqlval \<Rightarrow> sqlval) \<Rightarrow> db \<Rightarrow> string \<Rightarrow> string \<Rightarrow> int \<Rightarrow> exn + db" where
  "execute_insert_comparison affinity d item1 item2 preference =
     (case comparisons d of
        Inl e \<Rightarrow> Inl e
      | Inr rows \<Rightarrow>
          (case bind_int preference of
             Inl e \<Rightarrow> Inl e
           | Inr p \<Rightarrow>
               Inr (d\<lparr>comparisons := Inr (rows @
                      [\<lparr>item1_id = affinity (SqlText item1),
                        item2_id = affinity (SqlText item2),
                        score = affinity (SqlInt p)\<rparr>])\<rparr>)))"

text \<open>The body of the \<^verbatim>\<open>try\<close>.\<close>

definition record_comparison_try :: "(sqlval \<Rightarrow> sqlval) \<Rightarrow> form \<Rightarrow> db \<Rightarrow> exn + db" where
  "record_comparison_try affinity fm d =
     (case lookup fm ''item1_id'' of
        Inl e \<Rightarrow> Inl e
      | Inr item1 \<Rightarrow>
          (case lookup fm ''item2_id'' of
             Inl e \<Rightarrow> Inl e
           | Inr item2 \<Rightarrow>
               (case lookup fm ''preference'' of
                  Inl e \<Rightarrow> Inl e
                | Inr s \<Rightarrow>
                    (case py_int_str s of
                       None \<Rightarrow> Inl ValueError
                     | Some preference \<Rightarrow>
                         execute_insert_comparison affinity d item1 item2 preference))))"

text \<open>
  The handlers in the source's order. The first two (\<^verbatim>\<open>(KeyError, ValueError)\<close> and
  \<^verbatim>\<open>sqlite3.IntegrityError\<close>) log, roll back and do not return, so control reaches the
  \<^verbatim>\<open>return redirect(url_for('index'))\<close> after the \<^verbatim>\<open>try\<close>; the last two return a 500.
  Nothing of a failed request is committed: the store is as it was.
\<close>

definition record_comparison :: "(sqlval \<Rightarrow> sqlval) \<Rightarrow> form \<Rightarrow> db \<Rightarrow> response \<times> db" where
  "record_comparison affinity fm d =
     (case record_comparison_try affinity fm d of
        Inr d' \<Rightarrow> (Redirect ''/'', d')
      | Inl (KeyError k) \<Rightarrow> (Redirect ''/'', d)
      | Inl ValueError \<Rightarrow> (Redirect ''/'', d)
      | Inl (IntegrityError m) \<Rightarrow> (Redirect ''/'', d)
      | Inl (OperationalError m) \<Rightarrow>
          (Body (''Database error: '' @ m @ ''. Did you run 'flask init-db'?'') 500, d)
      | Inl e \<Rightarrow> (Body ''An unexpected error occurred.'' 500, d))"

text \<open>The exceptions that the handler for invalid form data catches.\<close>

fun invalid_input :: "exn \<Rightarrow> bool" where
  "invalid_input (KeyError k) = True"
| "invalid_input ValueError = True"
| "invalid_input e = False"

section \<open>\<^verbatim>\<open>index\<close> (GET / and POST /)\<close>

text \<open>
  Modelled from the spec: the id of a new item is a fresh integer assigned by the store
  (\<^verbatim>\<open>schema.sql\<close> is not among the sources). SQLite's rule for an integer primary key is
  one more than the largest id in the table, and 1 in an empty table. When the largest
  id is the largest 64-bit integer the store has no next id; the model raises there.
\<close>

definition fresh_id :: "item list \<Rightarrow> exn + 64 word" where
  "fresh_id rows =
     (if rows = [] then Inr 1
      else (let m = fold max (map (\<lambda>r. sint (ident r)) rows) (- (2 ^ 63)) in
            if m = 2 ^ 63 - 1 then Inl (OperationalError ''database or disk is full'')
            else Inr (word_of_int (m + 1))))"

text \<open>\<^verbatim>\<open>INSERT INTO items (name) VALUES (?)\<close> and the \<^verbatim>\<open>commit\<close>.\<close>

definition execute_insert_item :: "db \<Rightarrow> string \<Rightarrow> exn + db" where
  "execute_insert_item d nm =
     (case items d of
        Inl e \<Rightarrow> Inl e
      | Inr rows \<Rightarrow>
          (case fresh_id rows of
             Inl e \<Rightarrow> Inl e
           | Inr i \<Rightarrow> Inr (d\<lparr>items := Inr (rows @ [\<lparr>ident = i, name = nm\<rparr>])\<rparr>)))"

text \<open>
  The POST branch. \<^verbatim>\<open>request.form.get('item_name')\<close> is \<^verbatim>\<open>None\<close> for a missing field;
  \<^verbatim>\<open>None\<close> and the empty string are false in the condition.
\<close>

definition index_post :: "form \<Rightarrow> db \<Rightarrow> response \<times> db" where
  "index_post fm d =
     (case fm ''item_name'' of
        None \<Rightarrow> (Redirect ''/'', d)
      | Some item_name \<Rightarrow>
          if item_name \<noteq> [] \<and> py_strip item_name \<noteq> [] then
            (case execute_insert_item d (py_strip item_name) of
               Inr d' \<Rightarrow> (Redirect ''/'', d')
             | Inl (OperationalError m) \<Rightarrow>
                 (Body (''Database error: '' @ m @ ''. Did you run 'flask init-db'?'') 500, d)
             | Inl e \<Rightarrow> (Body ''An unexpected error occurred while adding the item.'' 500, d))
          else (Redirect ''/'', d))"

text \<open>
  \<^verbatim>\<open>list.sort(key=..., reverse=True)\<close>: the list is reversed, sorted by a stable sort in
  ascending order of the key, and reversed again.
\<close>

definition py_sort_reverse :: "('a \<Rightarrow> int) \<Rightarrow> 'a list \<Rightarrow> 'a list" where
  "py_sort_reverse key xs = rev (sort_key key (rev xs))"

text \<open>The dictionary built for one item in the loop of the GET branch.\<close>

definition ranked :: "db \<Rightarrow> item \<Rightarrow> ranked_item" where
  "ranked d it =
     \<lparr>r_id = ident it, r_name = name it, rank = calculate_relative_rank d (SqlInt (ident it))\<rparr>"

text \<open>The body of the \<^verbatim>\<open>try\<close> of the GET branch.\<close>

definition index_get_try :: "db \<Rightarrow> exn + ranked_item list" where
  "index_get_try d =
     (case items d of
        Inl e \<Rightarrow> Inl e
      | Inr items_data \<Rightarrow> Inr (py_sort_reverse rank (map (ranked d) items_data)))"

definition index_get :: "db \<Rightarrow> response" where
  "index_get d =
     (case index_get_try d of
        Inr ranked_items \<Rightarrow> RenderIndex ranked_items
      | Inl (OperationalError m) \<Rightarrow>
          if contains ''no such table: items'' m
          then Body ''Database not initialized. Run 'flask init-db' first.'' 500
          else Body (''Database error: '' @ m) 500
      | Inl e \<Rightarrow> Body ''An unexpected error occurred while fetching items.'' 500)"

definition index :: "http_method \<Rightarrow> form \<Rightarrow> db \<Rightarrow> response \<times> db" where
  "index method fm d = (if method = POST then index_post fm d else (index_get d, d))"

section \<open>Comparison logs of integers\<close>

text \<open>
  A row all of whose cells are integers, as the data model has it, and a log of such
  rows given by their triples (item1_id, item2_id, score).
\<close>

definition int_row :: "64 word \<times> 64 word \<times> 64 word \<Rightarrow> comparison_row" where
  "int_row c = (case c of (a, b, s) \<Rightarrow> \<lparr>item1_id = SqlInt a, item2_id = SqlInt b, score = SqlInt s\<rparr>)"

definition int_log :: "(64 word \<times> 64 word \<times> 64 word) list \<Rightarrow> exn + comparison_row list" where
  "int_log cs = Inr (map int_row cs)"

text \<open>The sum of the scores of the triples that satisfy \<open>P\<close>.\<close>

definition score_sum ::
    "(64 word \<times> 64 word \<times> 64 word \<Rightarrow> bool) \<Rightarrow> (64 word \<times> 64 word \<times> 64 word) list \<Rightarrow> int" where
  "score_sum P cs = sum_list (map (\<lambda>c. sint (snd (snd c))) (filter P cs))"

text \<open>
  What one row adds to the total for the item \<open>i\<close>, or the exception it raises: one
  round of the loop of \<open>rank_loop\<close>.
\<close>

definition row_delta :: "int \<Rightarrow> comparison_row \<Rightarrow> exn + int" where
  "row_delta i r =
     (case py_int (item1_id r) of
        Inl e \<Rightarrow> Inl e
      | Inr a \<Rightarrow>
          (case py_int (item2_id r) of
             Inl e \<Rightarrow> Inl e
           | Inr b \<Rightarrow>
               if a = i then (case py_int (score r) of Inl e \<Rightarrow> Inl e | Inr s \<Rightarrow> Inr s)
               else if b = i then (case py_int (score r) of Inl e \<Rightarrow> Inl e | Inr s \<Rightarrow> Inr (- s))
               else Inr 0))"

definition delta_of :: "int \<Rightarrow> comparison_row \<Rightarrow> int" where
  "delta_of i r = (case row_delta i r of Inl e \<Rightarrow> 0 | Inr x \<Rightarrow> x)"

text \<open>The states of the scenarios: items X, Y (and Z) with ids 1, 2 (and 3).\<close>

definition scenario_A :: db where
  "scenario_A =
     \<lparr>items = Inr [\<lparr>ident = 1, name = ''X''\<rparr>, \<lparr>ident = 2, name = ''Y''\<rparr>],
      comparisons = int_log [(1, 2, 5)]\<rparr>"

definition scenario_B :: db where
  "scenario_B =
     \<lparr>items = Inr [\<lparr>ident = 1, name = ''X''\<rparr>, \<lparr>ident = 2, name = ''Y''\<rparr>,
                   \<lparr>ident = 3, name = ''Z''\<rparr>],
      comparisons = int_log [(1, 2, 3), (2, 3, 2), (1, 3, - 1)]\<rparr>"

section \<open>The loop of the rank computation\<close>

lemma rank_loop_Cons:
  "rank_loop i (r # rs) t =
     (case row_delta i r of Inl e \<Rightarrow> Inl e | Inr x \<Rightarrow> rank_loop i rs (t + x))"
  by (simp add: row_delta_def split: sum.splits)

lemma rank_loop_ok:
  "list_all (\<lambda>r. isl (row_delta i r) = False) rs \<Longrightarrow>
   rank_loop i rs t = Inr (t + sum_list (map (delta_of i) rs))"
proof (induction rs arbitrary: t)
  case Nil
  show ?case by simp
next
  case (Cons r rs)
  from Cons.prems obtain x where x: "row_delta i r = Inr x"
    by (cases "row_delta i r") auto
  from Cons.prems have "list_all (\<lambda>r. isl (row_delta i r) = False) rs" by simp
  from Cons.IH [OF this]
  have "rank_loop i rs (t + x) = Inr (t + x + sum_list (map (delta_of i) rs))" .
  moreover from x have "delta_of i r = x" by (simp add: delta_of_def)
  ultimately show ?case using x
    by (simp only: rank_loop_Cons) simp
qed

lemma rank_loop_bad:
  "\<not> list_all (\<lambda>r. isl (row_delta i r) = False) rs \<Longrightarrow> isl (rank_loop i rs t)"
proof (induction rs arbitrary: t)
  case Nil
  then show ?case by simp
next
  case (Cons r rs)
  show ?case
  proof (cases "row_delta i r")
    case (Inl e)
    then show ?thesis by (simp only: rank_loop_Cons) simp
  next
    case (Inr x)
    with Cons.prems have "\<not> list_all (\<lambda>r. isl (row_delta i r) = False) rs" by simp
    from Cons.IH [OF this] Inr show ?thesis by (simp only: rank_loop_Cons) simp
  qed
qed

lemma loop_value:
  "(case rank_loop i rs 0 of Inl e \<Rightarrow> 0 | Inr t \<Rightarrow> t) =
   (if list_all (\<lambda>r. isl (row_delta i r) = False) rs then sum_list (map (delta_of i) rs) else 0)"
proof (cases "list_all (\<lambda>r. isl (row_delta i r) = False) rs")
  case True
  then show ?thesis by (simp add: rank_loop_ok)
next
  case False
  from rank_loop_bad [OF this, of 0] show ?thesis using False
    by (cases "rank_loop i rs 0") auto
qed

lemma rank_handlers:
  "calculate_relative_rank d v =
     (case calculate_relative_rank_try d v of Inl e \<Rightarrow> 0 | Inr t \<Rightarrow> t)"
  by (simp add: calculate_relative_rank_def split: sum.splits exn.splits)

text \<open>The rank in closed form: 0 once a fetched row raises, the sum of the rows' parts
  otherwise.\<close>

lemma rank_value:
  "calculate_relative_rank d v =
     (case py_int v of
        Inl e \<Rightarrow> 0
      | Inr i \<Rightarrow>
          (case execute_select_comparisons d i of
             Inl e \<Rightarrow> 0
           | Inr cs \<Rightarrow>
               if list_all (\<lambda>r. isl (row_delta i r) = False) cs
               then sum_list (map (delta_of i) cs) else 0))"
  by (simp add: rank_handlers calculate_relative_rank_try_def loop_value split: sum.splits)

section \<open>Integers between Python and SQLite\<close>

lemma bind_int_sint: "bind_int (sint (w :: 64 word)) = Inr w"
proof -
  have "- (2 ^ 63) \<le> sint w" using sint_ge [of w] by simp
  moreover have "sint w < 2 ^ 63" using sint_lt [of w] by simp
  ultimately show ?thesis by (simp add: bind_int_def)
qed

lemma sint_word_of_int_64:
  "- (2 ^ 63) \<le> n \<Longrightarrow> n < 2 ^ 63 \<Longrightarrow> sint (word_of_int n :: 64 word) = n"
  by (simp add: sint_sbintrunc' signed_take_bit_int_eq_self)

lemma sint_bind_int: "bind_int n = Inr p \<Longrightarrow> sint p = n"
  by (auto simp: bind_int_def sint_word_of_int_64 split: if_splits)

lemma sint_inj: "(sint (a :: 64 word) = sint b) = (a = b)"
  by (simp add: word_eq_iff_signed [where ?'a = int])

lemma py_trunc_of_int: "py_trunc (of_int n) = n"
  by (simp add: py_trunc_def)

text \<open>A cell that SQL finds equal to the parameter converts to the same Python integer.\<close>

lemma sql_eq_py_int: "sql_eq v p \<Longrightarrow> py_int v = Inr (sint p)"
proof (induction v p rule: sql_eq.induct)
  case (2 q p)
  then have "q = of_int (sint p)" by simp
  then have "py_trunc q = sint p" by (simp only: py_trunc_of_int)
  then show ?case by simp
qed simp_all

lemma execute_select_sint:
  "comparisons d = Inr rows \<Longrightarrow>
   execute_select_comparisons d (sint X) =
     Inr (filter (\<lambda>r. sql_eq (item1_id r) X \<or> sql_eq (item2_id r) X) rows)"
  by (simp add: execute_select_comparisons_def bind_int_sint)

section \<open>The rank over a log of integers\<close>

lemma row_delta_int_row:
  "row_delta (sint X) (int_row (a, b, s)) =
     Inr (if a = X then sint s else if b = X then - sint s else 0)"
  by (simp add: row_delta_def int_row_def sint_inj)

lemma delta_unfetched:
  "\<not> sql_eq (item1_id (int_row c)) X \<Longrightarrow> \<not> sql_eq (item2_id (int_row c)) X \<Longrightarrow>
   delta_of (sint X) (int_row c) = 0"
  by (cases c) (simp add: delta_of_def row_delta_int_row, simp add: int_row_def)

lemma sum_fetched:
  "sum_list (map (delta_of (sint X))
     (filter (\<lambda>r. sql_eq (item1_id r) X \<or> sql_eq (item2_id r) X) (map int_row cs))) =
   sum_list (map (\<lambda>c. delta_of (sint X) (int_row c)) cs)"
  by (induction cs) (auto simp: delta_unfetched)

lemma all_ok_int:
  "list_all (\<lambda>r. isl (row_delta (sint (X :: 64 word)) r) = False) (filter P (map int_row cs))"
  by (induction cs) (auto simp: row_delta_int_row)

lemma sum_split:
  "sum_list (map (\<lambda>c. delta_of (sint X) (int_row c)) cs) =
   score_sum (\<lambda>(a, b, s). a = X) cs - score_sum (\<lambda>(a, b, s). b = X \<and> a \<noteq> X) cs"
  by (induction cs) (auto simp: score_sum_def delta_of_def row_delta_int_row split: if_splits)

lemma rank_int_log:
  assumes "comparisons d = int_log cs"
  shows "calculate_relative_rank d (SqlInt X) =
     score_sum (\<lambda>(a, b, s). a = X) cs - score_sum (\<lambda>(a, b, s). b = X \<and> a \<noteq> X) cs"
proof -
  let ?f = "filter (\<lambda>r. sql_eq (item1_id r) X \<or> sql_eq (item2_id r) X) (map int_row cs)"
  from assms have "comparisons d = Inr (map int_row cs)" by (simp add: int_log_def)
  then have "calculate_relative_rank_try d (SqlInt X) = rank_loop (sint X) ?f 0"
    by (simp add: calculate_relative_rank_try_def execute_select_sint)
  then have "calculate_relative_rank d (SqlInt X) =
      (case rank_loop (sint X) ?f 0 of Inl e \<Rightarrow> 0 | Inr t \<Rightarrow> t)"
    by (simp add: rank_handlers)
  also have "\<dots> = sum_list (map (delta_of (sint X)) ?f)"
    by (simp only: loop_value all_ok_int if_True)
  also have "\<dots> = sum_list (map (\<lambda>c. delta_of (sint X) (int_row c)) cs)"
    by (rule sum_fetched)
  finally show ?thesis by (simp only: sum_split)
qed

lemma score_sum_append: "score_sum P (xs @ ys) = score_sum P xs + score_sum P ys"
  by (simp add: score_sum_def)

text \<open>
  C1 (amended). For every store whose comparison log holds integers and every item id
  \<open>X\<close>, the rank of \<open>X\<close> is the sum of the scores of the comparisons with item1_id = X
  minus the sum of the scores of the comparisons with item2_id = X and item1_id \<noteq> X.
  In scenario A (items X and Y, one comparison (X, Y, 5)) the rank of X is 5 and the rank
  of Y is -5.
\<close>

theorem rank_signed_sum:
  "(comparisons d = int_log cs \<longrightarrow>
      calculate_relative_rank d (SqlInt X) =
        score_sum (\<lambda>(a, b, s). a = X) cs - score_sum (\<lambda>(a, b, s). b = X \<and> a \<noteq> X) cs)
   \<and> calculate_relative_rank scenario_A (SqlInt 1) = 5
   \<and> calculate_relative_rank scenario_A (SqlInt 2) = - 5"
proof (intro conjI impI)
  assume "comparisons d = int_log cs"
  then show "calculate_relative_rank d (SqlInt X) =
      score_sum (\<lambda>(a, b, s). a = X) cs - score_sum (\<lambda>(a, b, s). b = X \<and> a \<noteq> X) cs"
    by (rule rank_int_log)
next
  have a: "comparisons scenario_A = int_log [(1, 2, 5)]" by (simp add: scenario_A_def)
  show "calculate_relative_rank scenario_A (SqlInt 1) = 5"
    by (simp add: rank_int_log [OF a] score_sum_def)
  show "calculate_relative_rank scenario_A (SqlInt 2) = - 5"
    by (simp add: rank_int_log [OF a] score_sum_def)
qed

theorem rank_signed_sum_witness:
  "comparisons \<lparr>items = Inr [], comparisons = int_log [(1, 2, 5), (1, 1, 7), (3, 1, 2)]\<rparr> =
     int_log [(1, 2, 5), (1, 1, 7), (3, 1, 2)]
   \<and> calculate_relative_rank
       \<lparr>items = Inr [], comparisons = int_log [(1, 2, 5), (1, 1, 7), (3, 1, 2)]\<rparr> (SqlInt 1) = 10"
  using rank_signed_sum
    [where d = "\<lparr>items = Inr [], comparisons = int_log [(1, 2, 5), (1, 1, 7), (3, 1, 2)]\<rparr>"
       and cs = "[(1, 2, 5), (1, 1, 7), (3, 1, 2)]" and X = 1]
  by (simp add: score_sum_def)

theorem rank_self_comparison_counterexample:
  "calculate_relative_rank
     \<lparr>items = Inr [\<lparr>ident = 1, name = ''X''\<rparr>], comparisons = int_log [(1, 1, 5)]\<rparr> (SqlInt 1) \<noteq>
   score_sum (\<lambda>(a, b, s). a = 1) [(1, 1, 5)] - score_sum (\<lambda>(a, b, s). b = 1) [(1, 1, 5)]"
proof -
  have "comparisons \<lparr>items = Inr [\<lparr>ident = 1, name = ''X''\<rparr>], comparisons = int_log [(1, 1, 5)]\<rparr> =
      int_log [(1, 1, 5)]"
    by simp
  from rank_int_log [OF this] show ?thesis by (simp add: score_sum_def)
qed

text \<open>
  C3. A comparison whose item1_id and item2_id both equal the queried id takes the first
  branch only: putting such a row with score \<open>s\<close> anywhere into a log of integers raises
  the rank of that item by exactly \<open>s\<close> (the score is added once and is not subtracted).
\<close>

theorem self_comparison_added_once:
  assumes "comparisons d = int_log (cs1 @ [(X, X, s)] @ cs2)"
    and "comparisons d' = int_log (cs1 @ cs2)"
  shows "calculate_relative_rank d (SqlInt X) = calculate_relative_rank d' (SqlInt X) + sint s"
  by (simp add: rank_int_log [OF assms(1)] rank_int_log [OF assms(2)] score_sum_append)
     (simp add: score_sum_def)

theorem self_comparison_added_once_witness:
  "calculate_relative_rank \<lparr>items = Inr [], comparisons = int_log [(1, 2, 5), (1, 1, 7)]\<rparr> (SqlInt 1) =
     calculate_relative_rank \<lparr>items = Inr [], comparisons = int_log [(1, 2, 5)]\<rparr> (SqlInt 1) + 7
   \<and> calculate_relative_rank \<lparr>items = Inr [], comparisons = int_log [(1, 2, 5)]\<rparr> (SqlInt 1) = 5"
proof -
  have a: "comparisons \<lparr>items = Inr [], comparisons = int_log [(1, 2, 5), (1, 1, 7)]\<rparr> =
      int_log ([(1, 2, 5)] @ [(1, 1, 7)] @ [])"
    by simp
  have b: "comparisons \<lparr>items = Inr [], comparisons = int_log [(1, 2, 5)]\<rparr> =
      int_log ([(1, 2, 5)] @ [])"
    by simp
  have c: "comparisons \<lparr>items = Inr [], comparisons = int_log [(1, 2, 5)]\<rparr> = int_log [(1, 2, 5)]"
    by simp
  from self_comparison_added_once [OF a b] rank_int_log [OF c, of 1]
  show ?thesis by (simp add: score_sum_def)
qed

section \<open>Storage errors and malformed rows\<close>

lemma rank_storage_error: "comparisons d = Inl e \<Longrightarrow> calculate_relative_rank d item_id = 0"
  by (simp add: rank_value execute_select_comparisons_def split: sum.splits)

lemma sort_key_all_equal:
  assumes "\<forall>x\<in>set xs. key x = c"
  shows "sort_key key xs = xs"
proof -
  have "filter (\<lambda>y. key y = c) (sort_key key xs) = filter (\<lambda>y. key y = c) xs"
    by (rule sort_key_stable)
  moreover from assms have "filter (\<lambda>y. key y = c) xs = xs" by simp
  moreover from assms have "filter (\<lambda>y. key y = c) (sort_key key xs) = sort_key key xs"
    by simp
  ultimately show ?thesis by simp
qed

lemma listing_storage_error:
  assumes "comparisons d = Inl e" and "items d = Inr rows"
  shows "index_get d =
    RenderIndex (map (\<lambda>it. \<lparr>r_id = ident it, r_name = name it, rank = 0\<rparr>) rows)"
proof -
  have r: "ranked d = (\<lambda>it. \<lparr>r_id = ident it, r_name = name it, rank = 0\<rparr>)"
    by (rule ext) (simp add: ranked_def rank_storage_error [OF assms(1)])
  have "\<forall>x\<in>set (rev (map (ranked d) rows)). rank x = 0"
    by (simp add: r)
  then have "sort_key rank (rev (map (ranked d) rows)) = rev (map (ranked d) rows)"
    by (rule sort_key_all_equal)
  then have "py_sort_reverse rank (map (ranked d) rows) = map (ranked d) rows"
    by (simp add: py_sort_reverse_def)
  with assms(2) show ?thesis by (simp add: index_get_def index_get_try_def r)
qed

text \<open>
  C4. Whenever the statement on the comparisons table raises an error (whatever the
  error), the rank computation returns 0 for every item id instead of raising; and the
  listing page, given that the items can be read, is still rendered, every item with the
  neutral rank 0.
\<close>

theorem storage_error_neutral_rank:
  assumes "comparisons d = Inl e"
  shows "calculate_relative_rank d item_id = 0 \<and>
    (\<forall>rows. items d = Inr rows \<longrightarrow>
       index_get d =
         RenderIndex (map (\<lambda>it. \<lparr>r_id = ident it, r_name = name it, rank = 0\<rparr>) rows))"
  using assms by (simp add: rank_storage_error listing_storage_error)

theorem storage_error_neutral_rank_witness:
  "comparisons \<lparr>items = Inr [\<lparr>ident = 1, name = ''X''\<rparr>, \<lparr>ident = 2, name = ''Y''\<rparr>],
       comparisons = Inl (OperationalError ''no such table: comparisons'')\<rparr> =
     Inl (OperationalError ''no such table: comparisons'')
   \<and> calculate_relative_rank
       \<lparr>items = Inr [\<lparr>ident = 1, name = ''X''\<rparr>, \<lparr>ident = 2, name = ''Y''\<rparr>],
        comparisons = Inl (OperationalError ''no such table: comparisons'')\<rparr> (SqlInt 1) = 0
   \<and> index_get
       \<lparr>items = Inr [\<lparr>ident = 1, name = ''X''\<rparr>, \<lparr>ident = 2, name = ''Y''\<rparr>],
        comparisons = Inl (OperationalError ''no such table: comparisons'')\<rparr> =
     RenderIndex [\<lparr>r_id = 1, r_name = ''X'', rank = 0\<rparr>, \<lparr>r_id = 2, r_name = ''Y'', rank = 0\<rparr>]"
  using storage_error_neutral_rank
    [where d = "\<lparr>items = Inr [\<lparr>ident = 1, name = ''X''\<rparr>, \<lparr>ident = 2, name = ''Y''\<rparr>],
                 comparisons = Inl (OperationalError ''no such table: comparisons'')\<rparr>"
       and e = "OperationalError ''no such table: comparisons''" and item_id = "SqlInt 1"]
  by simp

section \<open>The order of the log\<close>

lemma perm_value:
  assumes "mset xs = mset ys"
  shows "(if list_all P (filter Q xs) then sum_list (map f (filter Q xs)) else (0::int)) =
         (if list_all P (filter Q ys) then sum_list (map f (filter Q ys)) else 0)"
proof -
  from assms have m: "mset (filter Q xs) = mset (filter Q ys)" by simp
  then have "set (filter Q xs) = set (filter Q ys)" by (rule mset_eq_setD)
  then have a: "list_all P (filter Q xs) = list_all P (filter Q ys)"
    by (simp only: list_all_iff)
  from m have "mset (map f (filter Q xs)) = mset (map f (filter Q ys))" by simp
  then have "sum_mset (mset (map f (filter Q xs))) = sum_mset (mset (map f (filter Q ys)))"
    by (rule arg_cong)
  then have b: "sum_list (map f (filter Q xs)) = sum_list (map f (filter Q ys))"
    by (simp only: sum_mset_sum_list)
  from a b show ?thesis by simp
qed

lemma select_update:
  "execute_select_comparisons (d\<lparr>comparisons := Inr rows\<rparr>) i =
     (case bind_int i of Inl e \<Rightarrow> Inl e
      | Inr p \<Rightarrow> Inr (filter (\<lambda>r. sql_eq (item1_id r) p \<or> sql_eq (item2_id r) p) rows))"
  by (simp add: execute_select_comparisons_def)

text \<open>
  C6. The rank of every item depends only on the multiset of the recorded comparisons:
  two stores whose comparison logs are permutations of one another (rows of any content)
  give every item id the same rank.
\<close>

theorem rank_order_independent:
  assumes "mset rows = mset rows'"
  shows "calculate_relative_rank (d\<lparr>comparisons := Inr rows\<rparr>) item_id =
         calculate_relative_rank (d\<lparr>comparisons := Inr rows'\<rparr>) item_id"
proof (cases "py_int item_id")
  case (Inl e)
  then show ?thesis by (simp add: rank_value)
next
  case (Inr i)
  show ?thesis
  proof (cases "bind_int i")
    case (Inl e)
    with Inr show ?thesis by (simp add: rank_value select_update)
  next
    case (Inr p)
    from perm_value [OF assms] \<open>py_int item_id = Inr i\<close> Inr show ?thesis
      by (simp add: rank_value select_update)
  qed
qed

theorem rank_order_independent_witness:
  "mset [int_row (1, 2, 3), int_row (2, 3, 2), int_row (1, 3, - 1)] =
     mset [int_row (1, 3, - 1), int_row (1, 2, 3), int_row (2, 3, 2)]
   \<and> calculate_relative_rank
       (scenario_B\<lparr>comparisons := Inr [int_row (1, 2, 3), int_row (2, 3, 2), int_row (1, 3, - 1)]\<rparr>)
       (SqlInt 1) =
     calculate_relative_rank
       (scenario_B\<lparr>comparisons := Inr [int_row (1, 3, - 1), int_row (1, 2, 3), int_row (2, 3, 2)]\<rparr>)
       (SqlInt 1)"
proof -
  have m: "mset [int_row (1, 2, 3), int_row (2, 3, 2), int_row (1, 3, - 1)] =
      mset [int_row (1, 3, - 1), int_row (1, 2, 3), int_row (2, 3, 2)]"
    by simp
  from m rank_order_independent [OF m, of scenario_B "SqlInt 1"] show ?thesis
    by (rule conjI)
qed

lemma bad_row_delta:
  assumes fetched: "sql_eq (item1_id r) p \<or> sql_eq (item2_id r) p"
    and bad: "isl (py_int (item1_id r)) \<or> isl (py_int (item2_id r)) \<or> isl (py_int (score r))"
  shows "isl (row_delta (sint p) r)"
proof (cases "py_int (item1_id r)")
  case (Inl e)
  then show ?thesis by (simp add: row_delta_def)
next
  case a: (Inr a)
  show ?thesis
  proof (cases "py_int (item2_id r)")
    case (Inl e)
    with a show ?thesis by (simp add: row_delta_def)
  next
    case b: (Inr b)
    from a b bad obtain e where s: "py_int (score r) = Inl e"
      by (cases "py_int (score r)") auto
    from fetched a b have "a = sint p \<or> b = sint p"
      by (auto dest: sql_eq_py_int)
    with a b s show ?thesis by (auto simp: row_delta_def)
  qed
qed

text \<open>
  C10. If one of the rows fetched for an item has an item1_id, item2_id or score that
  \<^verbatim>\<open>int()\<close> rejects, the rank computation returns 0 for that item, whatever the other
  fetched rows hold: it never returns a partial sum.
\<close>

theorem bad_row_zero_rank:
  assumes "py_int item_id = Inr i"
    and "execute_select_comparisons d i = Inr fetched"
    and "r \<in> set fetched"
    and "isl (py_int (item1_id r)) \<or> isl (py_int (item2_id r)) \<or> isl (py_int (score r))"
  shows "calculate_relative_rank d item_id = 0"
proof -
  from assms(2) obtain rows p where p: "bind_int i = Inr p"
    and f: "fetched = filter (\<lambda>r. sql_eq (item1_id r) p \<or> sql_eq (item2_id r) p) rows"
    by (auto simp: execute_select_comparisons_def split: sum.splits)
  from f assms(3) have "sql_eq (item1_id r) p \<or> sql_eq (item2_id r) p" by simp
  from bad_row_delta [OF this assms(4)] have "isl (row_delta i r)"
    by (simp add: sint_bind_int [OF p])
  with assms(3) have "\<not> list_all (\<lambda>r. isl (row_delta i r) = False) fetched"
    by (auto simp: list_all_iff)
  with assms(1,2) show ?thesis by (simp add: rank_value)
qed

theorem bad_row_zero_rank_witness:
  "py_int (SqlInt 1) = Inr 1
   \<and> execute_select_comparisons
       \<lparr>items = Inr [],
        comparisons = Inr [int_row (1, 2, 5), int_row (3, 4, 9),
          \<lparr>item1_id = SqlText ''abc'', item2_id = SqlInt 1, score = SqlInt 3\<rparr>]\<rparr> 1 =
     Inr [int_row (1, 2, 5), \<lparr>item1_id = SqlText ''abc'', item2_id = SqlInt 1, score = SqlInt 3\<rparr>]
   \<and> py_int (SqlText ''abc'') = Inl ValueError
   \<and> calculate_relative_rank
       \<lparr>items = Inr [],
        comparisons = Inr [int_row (1, 2, 5), int_row (3, 4, 9),
          \<lparr>item1_id = SqlText ''abc'', item2_id = SqlInt 1, score = SqlInt 3\<rparr>]\<rparr> (SqlInt 1) = 0
   \<and> calculate_relative_rank
       \<lparr>items = Inr [], comparisons = int_log [(1, 2, 5), (3, 4, 9)]\<rparr> (SqlInt 1) = 5"
proof -
  let ?bad = "\<lparr>item1_id = SqlText ''abc'', item2_id = SqlInt 1, score = SqlInt 3\<rparr>"
  let ?d = "\<lparr>items = Inr [], comparisons = Inr [int_row (1, 2, 5), int_row (3, 4, 9), ?bad]\<rparr>"
  have h1: "py_int (SqlInt 1) = Inr 1" by simp
  have h2: "execute_select_comparisons ?d 1 = Inr [int_row (1, 2, 5), ?bad]"
    by (simp add: execute_select_comparisons_def bind_int_def int_row_def)
  have h3: "?bad \<in> set [int_row (1, 2, 5), ?bad]" by simp
  have abc: "py_int (SqlText ''abc'') = Inl ValueError"
    by (simp add: py_int_str_def strip_with_def is_int_space_def py_int_literal_def
        int_max_str_digits_def py_unsigned_def is_digit_def)
  then have h4: "isl (py_int (item1_id ?bad)) \<or> isl (py_int (item2_id ?bad)) \<or>
      isl (py_int (score ?bad))"
    by simp
  have c: "comparisons \<lparr>items = Inr [], comparisons = int_log [(1, 2, 5), (3, 4, 9)]\<rparr> =
      int_log [(1, 2, 5), (3, 4, 9)]"
    by simp
  have good: "calculate_relative_rank
      \<lparr>items = Inr [], comparisons = int_log [(1, 2, 5), (3, 4, 9)]\<rparr> (SqlInt 1) = 5"
    by (simp add: rank_int_log [OF c] score_sum_def)
  from bad_row_zero_rank [OF h1 h2 h3 h4] h1 h2 abc good show ?thesis by simp
qed

section \<open>Recording a comparison\<close>

lemma invalid_form_raises:
  assumes "fm ''item1_id'' = None \<or> fm ''item2_id'' = None \<or>
           (\<exists>s. fm ''preference'' = Some s \<and> py_int_str s = None)"
  shows "\<exists>e. record_comparison_try affinity fm d = Inl e \<and> invalid_input e"
  using assms
  by (auto simp: record_comparison_try_def lookup_def split: option.splits)

lemma invalid_input_handled:
  "record_comparison_try affinity fm d = Inl e \<Longrightarrow> invalid_input e \<Longrightarrow>
   record_comparison affinity fm d = (Redirect ''/'', d)"
  by (cases e) (simp_all add: record_comparison_def)

lemma happy_path:
  assumes "fm ''item1_id'' = Some item_a" and "fm ''item2_id'' = Some item_b"
    and "fm ''preference'' = Some pref" and "py_int_str pref = Some preference"
    and "bind_int preference = Inr p" and "comparisons d = Inr rows"
  shows "record_comparison affinity fm d =
    (Redirect ''/'', d\<lparr>comparisons := Inr (rows @
       [\<lparr>item1_id = affinity (SqlText item_a), item2_id = affinity (SqlText item_b),
         score = affinity (SqlInt p)\<rparr>])\<rparr>)"
  using assms
  by (simp add: record_comparison_def record_comparison_try_def lookup_def
      execute_insert_comparison_def)

lemma py_int_str_abc: "py_int_str ''abc'' = None"
  by (simp add: py_int_str_def strip_with_def is_int_space_def py_int_literal_def
      int_max_str_digits_def py_unsigned_def is_digit_def)

lemma py_int_str_5: "py_int_str ''5'' = Some 5"
  by (simp add: py_int_str_def strip_with_def is_int_space_def py_int_literal_def
      int_max_str_digits_def py_unsigned_def is_digit_def digit_val_def)

text \<open>
  C2 (amended). For every POST to /record_comparison whose form data is invalid (item1_id
  or item2_id missing, or a preference that \<^verbatim>\<open>int()\<close> rejects), the handler falls through
  to the redirect to \<^verbatim>\<open>/\<close> and leaves the store as it was; the same redirect is produced
  on the happy path, where the row is appended to the comparison log.
\<close>

theorem invalid_form_redirects:
  "(fm ''item1_id'' = None \<or> fm ''item2_id'' = None \<or>
      (\<exists>s. fm ''preference'' = Some s \<and> py_int_str s = None) \<longrightarrow>
      record_comparison affinity fm d = (Redirect ''/'', d))
   \<and> (fm ''item1_id'' = Some item_a \<and> fm ''item2_id'' = Some item_b \<and>
      fm ''preference'' = Some pref \<and> py_int_str pref = Some preference \<and>
      bind_int preference = Inr p \<and> comparisons d = Inr rows \<longrightarrow>
      record_comparison affinity fm d =
        (Redirect ''/'', d\<lparr>comparisons := Inr (rows @
           [\<lparr>item1_id = affinity (SqlText item_a), item2_id = affinity (SqlText item_b),
             score = affinity (SqlInt p)\<rparr>])\<rparr>))"
proof (intro conjI impI)
  assume "fm ''item1_id'' = None \<or> fm ''item2_id'' = None \<or>
      (\<exists>s. fm ''preference'' = Some s \<and> py_int_str s = None)"
  from invalid_form_raises [OF this, of affinity d]
  show "record_comparison affinity fm d = (Redirect ''/'', d)"
    by (auto intro: invalid_input_handled)
next
  assume "fm ''item1_id'' = Some item_a \<and> fm ''item2_id'' = Some item_b \<and>
      fm ''preference'' = Some pref \<and> py_int_str pref = Some preference \<and>
      bind_int preference = Inr p \<and> comparisons d = Inr rows"
  then show "record_comparison affinity fm d =
        (Redirect ''/'', d\<lparr>comparisons := Inr (rows @
           [\<lparr>item1_id = affinity (SqlText item_a), item2_id = affinity (SqlText item_b),
             score = affinity (SqlInt p)\<rparr>])\<rparr>)"
    by (simp add: happy_path)
qed

theorem invalid_form_redirects_witness:
  "py_int_str ''abc'' = None
   \<and> record_comparison (\<lambda>v. v)
       [''item1_id'' \<mapsto> ''1'', ''item2_id'' \<mapsto> ''2'', ''preference'' \<mapsto> ''abc''] scenario_A =
     (Redirect ''/'', scenario_A)
   \<and> py_int_str ''5'' = Some 5
   \<and> record_comparison (\<lambda>v. v)
       [''item1_id'' \<mapsto> ''1'', ''item2_id'' \<mapsto> ''2'', ''preference'' \<mapsto> ''5''] scenario_A =
     (Redirect ''/'', scenario_A\<lparr>comparisons := Inr [int_row (1, 2, 5),
        \<lparr>item1_id = SqlText ''1'', item2_id = SqlText ''2'', score = SqlInt 5\<rparr>]\<rparr>)"
  using
    invalid_form_redirects
      [where fm = "[''item1_id'' \<mapsto> ''1'', ''item2_id'' \<mapsto> ''2'', ''preference'' \<mapsto> ''abc'']"
         and affinity = "\<lambda>v. v" and d = scenario_A]
    invalid_form_redirects
      [where fm = "[''item1_id'' \<mapsto> ''1'', ''item2_id'' \<mapsto> ''2'', ''preference'' \<mapsto> ''5'']"
         and affinity = "\<lambda>v. v" and d = scenario_A and item_a = "''1''" and item_b = "''2''"
         and pref = "''5''" and preference = 5 and p = 5 and rows = "[int_row (1, 2, 5)]"]
  by (simp add: py_int_str_abc py_int_str_5 bind_int_def scenario_A_def int_log_def)

theorem invalid_form_redirect_counterexample:
  "py_int_str ''abc'' = None
   \<and> fst (record_comparison (\<lambda>v. v)
       [''item1_id'' \<mapsto> ''1'', ''item2_id'' \<mapsto> ''2'', ''preference'' \<mapsto> ''abc''] scenario_A) =
     Redirect ''/''"
  by (simp add: py_int_str_abc record_comparison_def record_comparison_try_def lookup_def)

text \<open>
  C5. For every POST to /record_comparison in which item1_id or item2_id is missing or the
  preference is not parseable as an integer, the body of the handler raises an exception
  that the handler for invalid form data catches (\<^verbatim>\<open>KeyError\<close> or \<^verbatim>\<open>ValueError\<close>), and the
  store, so the comparison log, is unchanged.
\<close>

theorem invalid_input_no_row:
  assumes "fm ''item1_id'' = None \<or> fm ''item2_id'' = None \<or>
           (\<exists>s. fm ''preference'' = Some s \<and> py_int_str s = None)"
  shows "(\<exists>e. record_comparison_try affinity fm d = Inl e \<and> invalid_input e) \<and>
         snd (record_comparison affinity fm d) = d"
proof -
  from invalid_form_raises [OF assms, of affinity d]
  obtain e where e: "record_comparison_try affinity fm d = Inl e" "invalid_input e"
    by blast
  from invalid_input_handled [OF e] have "snd (record_comparison affinity fm d) = d"
    by simp
  with e show ?thesis by blast
qed

theorem invalid_input_no_row_witness:
  "py_int_str ''abc'' = None
   \<and> record_comparison_try (\<lambda>v. v)
       [''item1_id'' \<mapsto> ''1'', ''item2_id'' \<mapsto> ''2'', ''preference'' \<mapsto> ''abc''] scenario_A =
     Inl ValueError
   \<and> comparisons (snd (record_comparison (\<lambda>v. v)
       [''item1_id'' \<mapsto> ''1'', ''item2_id'' \<mapsto> ''2'', ''preference'' \<mapsto> ''abc''] scenario_A)) =
     int_log [(1, 2, 5)]
   \<and> record_comparison_try (\<lambda>v. v) [''item1_id'' \<mapsto> ''1'', ''preference'' \<mapsto> ''5''] scenario_A =
     Inl (KeyError ''item2_id'')"
  using invalid_input_no_row
      [where fm = "[''item1_id'' \<mapsto> ''1'', ''item2_id'' \<mapsto> ''2'', ''preference'' \<mapsto> ''abc'']"
         and affinity = "\<lambda>v. v" and d = scenario_A]
  by (simp add: py_int_str_abc record_comparison_try_def lookup_def scenario_A_def)

section \<open>The listing\<close>

lemma py_sort_reverse_sorted: "sorted_wrt (\<lambda>a b. key b \<le> key a) (py_sort_reverse key xs)"
proof -
  have "sorted (map key (sort_key key (rev xs)))" by (rule sorted_sort_key)
  then have "sorted_wrt (\<lambda>a b. key a \<le> key b) (sort_key key (rev xs))"
    by (simp add: sorted_map)
  then show ?thesis by (simp add: py_sort_reverse_def sorted_wrt_rev)
qed

lemma py_sort_reverse_stable:
  "filter (\<lambda>x. key x = k) (py_sort_reverse key xs) = filter (\<lambda>x. key x = k) xs"
  by (simp add: py_sort_reverse_def rev_filter [symmetric] sort_key_stable)

lemma py_sort_reverse_mset: "mset (py_sort_reverse key xs) = mset xs"
  by (simp add: py_sort_reverse_def)

lemma index_get_ok:
  "items d = Inr rows \<Longrightarrow> index_get d = RenderIndex (py_sort_reverse rank (map (ranked d) rows))"
  by (simp add: index_get_def index_get_try_def)

lemma scenario_B_ranks:
  "calculate_relative_rank scenario_B (SqlInt 1) = 2"
  "calculate_relative_rank scenario_B (SqlInt 2) = - 1"
  "calculate_relative_rank scenario_B (SqlInt 3) = - 1"
proof -
  have b: "comparisons scenario_B = int_log [(1, 2, 3), (2, 3, 2), (1, 3, - 1)]"
    by (simp add: scenario_B_def)
  show "calculate_relative_rank scenario_B (SqlInt 1) = 2"
    by (simp add: rank_int_log [OF b] score_sum_def)
  show "calculate_relative_rank scenario_B (SqlInt 2) = - 1"
    by (simp add: rank_int_log [OF b] score_sum_def)
  show "calculate_relative_rank scenario_B (SqlInt 3) = - 1"
    by (simp add: rank_int_log [OF b] score_sum_def)
qed

lemma scenario_B_listing:
  "index_get scenario_B =
     RenderIndex [\<lparr>r_id = 1, r_name = ''X'', rank = 2\<rparr>, \<lparr>r_id = 2, r_name = ''Y'', rank = - 1\<rparr>,
                  \<lparr>r_id = 3, r_name = ''Z'', rank = - 1\<rparr>]"
proof -
  have i: "items scenario_B =
      Inr [\<lparr>ident = 1, name = ''X''\<rparr>, \<lparr>ident = 2, name = ''Y''\<rparr>, \<lparr>ident = 3, name = ''Z''\<rparr>]"
    by (simp add: scenario_B_def)
  show ?thesis
    by (simp add: index_get_ok [OF i] ranked_def scenario_B_ranks py_sort_reverse_def)
qed

text \<open>
  C7 (amended). The GET / listing returns the items with their computed ranks in
  descending order of rank, and the sort is stable: items of equal rank keep the order
  in which the store yields them. With items X, Y, Z and comparisons (X,Y,3), (Y,Z,2),
  (X,Z,-1) the ranks are X = 2, Y = -1, Z = -1 and the listing order is X, Y, Z.
\<close>

theorem listing_descending_stable:
  "(items d = Inr rows \<longrightarrow>
      (\<exists>page. index_get d = RenderIndex page \<and>
         sorted_wrt (\<lambda>a b. rank b \<le> rank a) page \<and>
         mset page = mset (map (ranked d) rows) \<and>
         (\<forall>k. filter (\<lambda>x. rank x = k) page = filter (\<lambda>x. rank x = k) (map (ranked d) rows))))
   \<and> index_get scenario_B =
       RenderIndex [\<lparr>r_id = 1, r_name = ''X'', rank = 2\<rparr>, \<lparr>r_id = 2, r_name = ''Y'', rank = - 1\<rparr>,
                    \<lparr>r_id = 3, r_name = ''Z'', rank = - 1\<rparr>]"
proof (intro conjI impI)
  assume "items d = Inr rows"
  then have "index_get d = RenderIndex (py_sort_reverse rank (map (ranked d) rows))"
    by (rule index_get_ok)
  then show "\<exists>page. index_get d = RenderIndex page \<and>
         sorted_wrt (\<lambda>a b. rank b \<le> rank a) page \<and>
         mset page = mset (map (ranked d) rows) \<and>
         (\<forall>k. filter (\<lambda>x. rank x = k) page = filter (\<lambda>x. rank x = k) (map (ranked d) rows))"
    by (simp add: py_sort_reverse_sorted py_sort_reverse_stable py_sort_reverse_mset)
next
  show "index_get scenario_B =
       RenderIndex [\<lparr>r_id = 1, r_name = ''X'', rank = 2\<rparr>, \<lparr>r_id = 2, r_name = ''Y'', rank = - 1\<rparr>,
                    \<lparr>r_id = 3, r_name = ''Z'', rank = - 1\<rparr>]"
    by (rule scenario_B_listing)
qed

theorem listing_descending_stable_witness:
  "items scenario_B =
     Inr [\<lparr>ident = 1, name = ''X''\<rparr>, \<lparr>ident = 2, name = ''Y''\<rparr>, \<lparr>ident = 3, name = ''Z''\<rparr>]
   \<and> (\<exists>page. index_get scenario_B = RenderIndex page \<and>
        sorted_wrt (\<lambda>a b. rank b \<le> rank a) page \<and>
        page = [\<lparr>r_id = 1, r_name = ''X'', rank = 2\<rparr>, \<lparr>r_id = 2, r_name = ''Y'', rank = - 1\<rparr>,
                \<lparr>r_id = 3, r_name = ''Z'', rank = - 1\<rparr>])"
proof -
  have i: "items scenario_B =
      Inr [\<lparr>ident = 1, name = ''X''\<rparr>, \<lparr>ident = 2, name = ''Y''\<rparr>, \<lparr>ident = 3, name = ''Z''\<rparr>]"
    by (simp add: scenario_B_def)
  from listing_descending_stable
    [of scenario_B "[\<lparr>ident = 1, name = ''X''\<rparr>, \<lparr>ident = 2, name = ''Y''\<rparr>, \<lparr>ident = 3, name = ''Z''\<rparr>]"]
    i
  show ?thesis by auto
qed

theorem scenario_B_rank_counterexample:
  "calculate_relative_rank scenario_B (SqlInt 2) \<noteq> 1"
  by (simp add: scenario_B_ranks)

section \<open>Sampling two items\<close>

lemma order_by_random_mset: "mset (order_by_random rnd rows) = mset rows"
proof -
  have z: "map snd (zip (map rnd [0..<length rows]) rows) = rows"
    by (rule map_snd_zip) simp
  have "mset (order_by_random rnd rows) = mset (map snd (zip (map rnd [0..<length rows]) rows))"
    by (simp only: order_by_random_def mset_map mset_sort)
  then show ?thesis by (simp only: z)
qed

lemma few_items:
  assumes "items d = Inr rows" and "length rows < 2"
  shows "compare_items rnd d =
    Inr (Body ''Not enough items in the database to compare (need at least 2).'' 200)"
proof -
  have "length (order_by_random rnd rows) = length rows"
    using order_by_random_mset [of rnd rows] by (rule mset_eq_length)
  with assms(2) have "length (take 2 (order_by_random rnd rows)) < 2" by simp
  then have "\<And>a b. take 2 (order_by_random rnd rows) \<noteq> [a, b]" by auto
  with assms show ?thesis
    by (auto simp: compare_items_def compare_items_try_def split: list.splits)
qed

lemma two_items:
  assumes "items d = Inr rows" and "2 \<le> length rows"
  shows "\<exists>a b. compare_items rnd d = Inr (RenderCompare a b) \<and> {#a, b#} \<subseteq># mset rows \<and>
           (distinct (map ident rows) \<longrightarrow> ident a \<noteq> ident b)"
proof -
  let ?xs = "order_by_random rnd rows"
  have m: "mset ?xs = mset rows" by (rule order_by_random_mset)
  then have len: "length ?xs = length rows" by (rule mset_eq_length)
  from m have "mset (map ident ?xs) = mset (map ident rows)" by simp
  then have dist: "distinct (map ident ?xs) = distinct (map ident rows)"
    by (rule mset_eq_imp_distinct_iff)
  from len assms(2) obtain a b zs where xs: "?xs = a # b # zs"
    by (cases ?xs; cases "tl ?xs") auto
  from xs m have "mset rows = {#a, b#} + mset zs" by simp
  then have "{#a, b#} \<subseteq># mset rows" by simp
  moreover from xs dist have "distinct (map ident rows) \<longrightarrow> ident a \<noteq> ident b" by auto
  moreover from xs assms(1) have "compare_items rnd d = Inr (RenderCompare a b)"
    by (simp add: compare_items_def compare_items_try_def)
  ultimately show ?thesis by blast
qed

text \<open>
  C8. For every store whose items table holds 0 or 1 items, GET /compare answers with the
  plain-text message that there are not enough items (it neither renders a comparison
  page nor raises); for a store with 2 or more items it renders the comparison page with
  two different rows of the table, which are two distinct items as ids are unique.
  This holds for every outcome of the random draws.
\<close>

theorem compare_needs_two_items:
  assumes "items d = Inr rows"
  shows "if length rows < 2
         then compare_items rnd d =
           Inr (Body ''Not enough items in the database to compare (need at least 2).'' 200)
         else (\<exists>a b. compare_items rnd d = Inr (RenderCompare a b) \<and> {#a, b#} \<subseteq># mset rows \<and>
                (distinct (map ident rows) \<longrightarrow> ident a \<noteq> ident b))"
proof (cases "length rows < 2")
  case True
  with few_items [OF assms] show ?thesis by simp
next
  case False
  then have "2 \<le> length rows" by simp
  from two_items [OF assms this] False show ?thesis by simp
qed

theorem compare_needs_two_items_witness:
  "compare_items (\<lambda>i. 0) \<lparr>items = Inr [\<lparr>ident = 1, name = ''X''\<rparr>], comparisons = Inr []\<rparr> =
     Inr (Body ''Not enough items in the database to compare (need at least 2).'' 200)
   \<and> distinct (map ident
        [\<lparr>ident = 1, name = ''X''\<rparr>, \<lparr>ident = 2, name = ''Y''\<rparr>, \<lparr>ident = 3, name = ''Z''\<rparr>])
   \<and> compare_items (\<lambda>i. 7 - int i) scenario_B =
     Inr (RenderCompare \<lparr>ident = 3, name = ''Z''\<rparr> \<lparr>ident = 2, name = ''Y''\<rparr>)"
proof -
  have one: "items \<lparr>items = Inr [\<lparr>ident = 1, name = ''X''\<rparr>], comparisons = Inr []\<rparr> =
      Inr [\<lparr>ident = 1, name = ''X''\<rparr>]"
    by simp
  have three: "items scenario_B =
      Inr [\<lparr>ident = 1, name = ''X''\<rparr>, \<lparr>ident = 2, name = ''Y''\<rparr>, \<lparr>ident = 3, name = ''Z''\<rparr>]"
    by (simp add: scenario_B_def)
  have z: "compare_items (\<lambda>i. 7 - int i) scenario_B =
      Inr (RenderCompare \<lparr>ident = 3, name = ''Z''\<rparr> \<lparr>ident = 2, name = ''Y''\<rparr>)"
    by (simp add: compare_items_def compare_items_try_def three order_by_random_def
        upt_rec numeral_3_eq_3)
  from compare_needs_two_items [OF one, of "\<lambda>i. 0"]
    compare_needs_two_items [OF three, of "\<lambda>i. 7 - int i"] z
  show ?thesis by simp
qed

section \<open>Creating an item\<close>

lemma py_strip_Nil: "py_strip [] = []"
  by (simp add: py_strip_def strip_with_def)

lemma blank_name:
  assumes "fm ''item_name'' = None \<or>
    (\<exists>item_name. fm ''item_name'' = Some item_name \<and> py_strip item_name = [])"
  shows "index POST fm d = (Redirect ''/'', d)"
  using assms by (auto simp: index_def index_post_def)

lemma create_item:
  assumes "fm ''item_name'' = Some item_name" and "py_strip item_name \<noteq> []"
    and "items d = Inr rows" and "fresh_id rows = Inr i"
  shows "index POST fm d =
     (Redirect ''/'', d\<lparr>items := Inr (rows @ [\<lparr>ident = i, name = py_strip item_name\<rparr>])\<rparr>)"
proof -
  from assms(2) have "item_name \<noteq> []" by (auto simp: py_strip_Nil)
  with assms show ?thesis
    by (simp add: index_def index_post_def execute_insert_item_def)
qed

text \<open>The id given to a new item is not among the ids of the table, so the ids stay
  unique.\<close>

lemma fold_max_ge_start: "(b :: int) \<le> fold max xs b"
proof (induction xs arbitrary: b)
  case Nil
  show ?case by simp
next
  case (Cons x xs)
  have "b \<le> max x b" by simp
  also have "\<dots> \<le> fold max xs (max x b)" by (rule Cons.IH)
  finally show ?case by simp
qed

lemma fold_max_ge_elem: "x \<in> set xs \<Longrightarrow> (x :: int) \<le> fold max xs b"
proof (induction xs arbitrary: b)
  case Nil
  then show ?case by simp
next
  case (Cons y ys)
  show ?case
  proof (cases "x = y")
    case True
    have "x \<le> max x b" by simp
    also have "\<dots> \<le> fold max ys (max x b)" by (rule fold_max_ge_start)
    finally show ?thesis using True by simp
  next
    case False
    with Cons.prems have "x \<in> set ys" by simp
    from Cons.IH [OF this] show ?thesis by simp
  qed
qed

lemma fresh_id_unused:
  assumes "fresh_id rows = Inr i" and "r \<in> set rows"
  shows "ident r \<noteq> i"
proof -
  let ?m = "fold max (map (\<lambda>r. sint (ident r)) rows) (- (2 ^ 63))"
  from assms(2) have ne: "rows \<noteq> []" by auto
  with assms(1) have m: "?m \<noteq> 2 ^ 63 - 1" and i: "i = word_of_int (?m + 1)"
    by (auto simp: fresh_id_def Let_def split: if_splits)
  from assms(2) have "sint (ident r) \<in> set (map (\<lambda>r. sint (ident r)) rows)" by simp
  then have le: "sint (ident r) \<le> ?m" by (rule fold_max_ge_elem)
  have lo: "- (2 ^ 63) \<le> ?m" by (rule fold_max_ge_start)
  have "?m < 2 ^ 63"
  proof (rule ccontr)
    assume "\<not> ?m < 2 ^ 63"
    then have big: "2 ^ 63 \<le> ?m" by simp
    have "\<And>b xs. (\<forall>x\<in>set xs. x < (2 ^ 63 :: int)) \<Longrightarrow> b < 2 ^ 63 \<Longrightarrow> fold max xs b < 2 ^ 63"
    proof -
      fix b :: int and xs
      show "(\<forall>x\<in>set xs. x < (2 ^ 63 :: int)) \<Longrightarrow> b < 2 ^ 63 \<Longrightarrow> fold max xs b < 2 ^ 63"
        by (induction xs arbitrary: b) auto
    qed
    moreover have "\<forall>x\<in>set (map (\<lambda>r. sint (ident r)) rows). x < (2 ^ 63 :: int)"
    proof
      fix x assume "x \<in> set (map (\<lambda>r. sint (ident r)) rows)"
      then obtain r' :: item where "x = sint (ident r')" by auto
      with sint_lt [of "ident r'"] show "x < 2 ^ 63" by simp
    qed
    ultimately have "?m < 2 ^ 63" by simp
    with big show False by simp
  qed
  with m have hi: "?m + 1 < 2 ^ 63" by simp
  define n where "n = ?m + 1"
  from lo hi have "- (2 ^ 63) \<le> n" and "n < 2 ^ 63" by (simp_all add: n_def)
  then have "sint (word_of_int n :: 64 word) = n" by (rule sint_word_of_int_64)
  moreover from i have "i = word_of_int n" by (simp only: n_def)
  moreover from le have "sint (ident r) < n" by (simp add: n_def)
  ultimately have "sint (ident r) < sint i" by simp
  then show ?thesis by auto
qed

lemma insert_keeps_ids_unique:
  assumes "items d = Inr rows" and "distinct (map ident rows)"
    and "execute_insert_item d nm = Inr d'"
  shows "\<exists>rows'. items d' = Inr rows' \<and> distinct (map ident rows')"
proof -
  from assms(1,3) obtain i where i: "fresh_id rows = Inr i"
    and d': "d' = d\<lparr>items := Inr (rows @ [\<lparr>ident = i, name = nm\<rparr>])\<rparr>"
    by (auto simp: execute_insert_item_def split: sum.splits)
  from fresh_id_unused [OF i] have "i \<notin> ident ` set rows" by auto
  with assms(2) d' show ?thesis by simp
qed

lemma listed:
  assumes "items d = Inr rows" and "it \<in> set rows"
  shows "\<exists>page. fst (index GET fm d) = RenderIndex page \<and>
     (\<exists>x\<in>set page. r_id x = ident it \<and> r_name x = name it)"
proof -
  let ?page = "py_sort_reverse rank (map (ranked d) rows)"
  have "mset ?page = mset (map (ranked d) rows)" by (rule py_sort_reverse_mset)
  then have "set ?page = set (map (ranked d) rows)" by (rule mset_eq_setD)
  with assms(2) have "ranked d it \<in> set ?page" by simp
  moreover have "r_id (ranked d it) = ident it \<and> r_name (ranked d it) = name it"
    by (simp add: ranked_def)
  moreover from assms(1) have "fst (index GET fm d) = RenderIndex ?page"
    by (simp add: index_def index_get_ok)
  ultimately show ?thesis by blast
qed

text \<open>
  C9. POST / with a name that is empty or all whitespace (or with no name) changes
  nothing and answers with the redirect, no error. With any other name, on a store that
  can take the row, it appends exactly one item, whose name is the submitted name
  stripped of surrounding whitespace, and a following GET / lists an item with that id
  and that same name.
\<close>

theorem create_item_trimmed:
  "(fm ''item_name'' = None \<or>
      (\<exists>item_name. fm ''item_name'' = Some item_name \<and> py_strip item_name = []) \<longrightarrow>
      index POST fm d = (Redirect ''/'', d))
   \<and> (fm ''item_name'' = Some item_name \<and> py_strip item_name \<noteq> [] \<and>
      items d = Inr rows \<and> fresh_id rows = Inr i \<longrightarrow>
      index POST fm d =
        (Redirect ''/'', d\<lparr>items := Inr (rows @ [\<lparr>ident = i, name = py_strip item_name\<rparr>])\<rparr>) \<and>
      (\<exists>page. fst (index GET fm' (snd (index POST fm d))) = RenderIndex page \<and>
         (\<exists>x\<in>set page. r_id x = i \<and> r_name x = py_strip item_name)))"
proof (intro conjI impI)
  assume "fm ''item_name'' = None \<or>
      (\<exists>item_name. fm ''item_name'' = Some item_name \<and> py_strip item_name = [])"
  then show "index POST fm d = (Redirect ''/'', d)" by (rule blank_name)
next
  assume a: "fm ''item_name'' = Some item_name \<and> py_strip item_name \<noteq> [] \<and>
      items d = Inr rows \<and> fresh_id rows = Inr i"
  then show "index POST fm d =
        (Redirect ''/'', d\<lparr>items := Inr (rows @ [\<lparr>ident = i, name = py_strip item_name\<rparr>])\<rparr>)"
    by (simp add: create_item)
next
  assume a: "fm ''item_name'' = Some item_name \<and> py_strip item_name \<noteq> [] \<and>
      items d = Inr rows \<and> fresh_id rows = Inr i"
  let ?it = "\<lparr>ident = i, name = py_strip item_name\<rparr>"
  let ?d = "d\<lparr>items := Inr (rows @ [?it])\<rparr>"
  from a have p: "snd (index POST fm d) = ?d" by (simp add: create_item)
  have "items ?d = Inr (rows @ [?it])" by simp
  moreover have "?it \<in> set (rows @ [?it])" by simp
  ultimately have "\<exists>page. fst (index GET fm' ?d) = RenderIndex page \<and>
     (\<exists>x\<in>set page. r_id x = ident ?it \<and> r_name x = name ?it)"
    by (rule listed)
  with p show "\<exists>page. fst (index GET fm' (snd (index POST fm d))) = RenderIndex page \<and>
         (\<exists>x\<in>set page. r_id x = i \<and> r_name x = py_strip item_name)"
    by simp
qed

theorem create_item_trimmed_witness:
  "py_strip ''   '' = []
   \<and> index POST [''item_name'' \<mapsto> ''   ''] scenario_A = (Redirect ''/'', scenario_A)
   \<and> py_strip ''  tea  '' = ''tea''
   \<and> fresh_id [\<lparr>ident = 1, name = ''X''\<rparr>, \<lparr>ident = 2, name = ''Y''\<rparr>] = Inr 3
   \<and> index POST [''item_name'' \<mapsto> ''  tea  ''] scenario_A =
       (Redirect ''/'',
        scenario_A\<lparr>items := Inr [\<lparr>ident = 1, name = ''X''\<rparr>, \<lparr>ident = 2, name = ''Y''\<rparr>,
                                   \<lparr>ident = 3, name = ''tea''\<rparr>]\<rparr>)
   \<and> fst (index GET Map.empty (snd (index POST [''item_name'' \<mapsto> ''  tea  ''] scenario_A))) =
       RenderIndex [\<lparr>r_id = 1, r_name = ''X'', rank = 5\<rparr>, \<lparr>r_id = 3, r_name = ''tea'', rank = 0\<rparr>,
                    \<lparr>r_id = 2, r_name = ''Y'', rank = - 5\<rparr>]"
proof -
  let ?rows = "[\<lparr>ident = 1, name = ''X''\<rparr>, \<lparr>ident = 2, name = ''Y''\<rparr>]"
  let ?d = "scenario_A\<lparr>items := Inr [\<lparr>ident = 1, name = ''X''\<rparr>, \<lparr>ident = 2, name = ''Y''\<rparr>,
      \<lparr>ident = 3, name = ''tea''\<rparr>]\<rparr>"
  have blank: "py_strip ''   '' = []"
    by (simp add: py_strip_def strip_with_def is_space_def)
  have tea: "py_strip ''  tea  '' = ''tea''"
    by (simp add: py_strip_def strip_with_def is_space_def)
  have i: "items scenario_A = Inr ?rows" by (simp add: scenario_A_def)
  have f: "fresh_id ?rows = Inr 3" by (simp add: fresh_id_def)
  have c: "comparisons ?d = int_log [(1, 2, 5)]" by (simp add: scenario_A_def)
  have page: "fst (index GET Map.empty ?d) =
      RenderIndex [\<lparr>r_id = 1, r_name = ''X'', rank = 5\<rparr>, \<lparr>r_id = 3, r_name = ''tea'', rank = 0\<rparr>,
                   \<lparr>r_id = 2, r_name = ''Y'', rank = - 5\<rparr>]"
  proof -
    have "calculate_relative_rank ?d (SqlInt 1) = 5"
      by (simp add: rank_int_log [OF c] score_sum_def)
    moreover have "calculate_relative_rank ?d (SqlInt 2) = - 5"
      by (simp add: rank_int_log [OF c] score_sum_def)
    moreover have "calculate_relative_rank ?d (SqlInt 3) = 0"
      by (simp add: rank_int_log [OF c] score_sum_def)
    ultimately show ?thesis
      by (simp add: index_def index_get_def index_get_try_def ranked_def py_sort_reverse_def)
  qed
  from create_item_trimmed
      [where fm = "[''item_name'' \<mapsto> ''   '']" and d = scenario_A]
    create_item_trimmed
      [where fm = "[''item_name'' \<mapsto> ''  tea  '']" and d = scenario_A
         and item_name = "''  tea  ''" and rows = ?rows and i = 3 and fm' = Map.empty]
    blank tea i f page
  show ?thesis by simp
qed

end
